theory Spec2Isabelle
  imports Main
begin

section \<open>pyrawr: a wrapper around the ThermoRawFileParser command line\<close>

text \<open>
  The development embeds \<^verbatim>\<open>src/pyrawr.py\<close>: the class \<^verbatim>\<open>ThermoRawFileParser\<close> with its
  constructor, the four operations \<^verbatim>\<open>parse\<close>, \<^verbatim>\<open>metadata\<close>, \<^verbatim>\<open>query\<close>, \<^verbatim>\<open>xic\<close> and
  the two private methods \<^verbatim>\<open>_validate_install\<close> and \<^verbatim>\<open>_run_command\<close>.

  A Python \<^verbatim>\<open>str\<close> is modelled by its UTF-8 encoding, a \<^typ>\<open>string\<close> whose characters are
  bytes; \<^verbatim>\<open>bytes\<close> are a \<^typ>\<open>string\<close> as well. Exceptions are values of the type \<open>error\<close>,
  and every method returns a sum whose left injection is the exception raised.
\<close>

subsection \<open>Python strings\<close>

type_synonym bytes = string

definition startswith :: "string \<Rightarrow> string \<Rightarrow> bool" where
  \<comment> \<open>\<^verbatim>\<open>s.startswith(p)\<close>\<close>
  "startswith s p = (take (length p) s = p)"

definition endswith :: "string \<Rightarrow> string \<Rightarrow> bool" where
  \<comment> \<open>\<^verbatim>\<open>s.endswith(p)\<close>\<close>
  "endswith s p = (length p \<le> length s \<and> drop (length s - length p) s = p)"

fun split_on :: "char \<Rightarrow> string \<Rightarrow> string list" where
  \<comment> \<open>\<^verbatim>\<open>s.split(sep)\<close> for a separator of one character: empty fields are kept\<close>
  "split_on sep [] = [[]]"
| "split_on sep (c # cs) =
     (if c = sep then [] # split_on sep cs
      else (case split_on sep cs of
              [] \<Rightarrow> [[c]]
            | w # ws \<Rightarrow> (c # w) # ws))"

fun join_with :: "string \<Rightarrow> string list \<Rightarrow> string" where
  \<comment> \<open>\<^verbatim>\<open>sep.join(xs)\<close>\<close>
  "join_with sep [] = []"
| "join_with sep [x] = x"
| "join_with sep (x # y # ys) = x @ sep @ join_with sep (y # ys)"

definition lower_char :: "char \<Rightarrow> char" where
  "lower_char c =
     (case map_of (zip ''ABCDEFGHIJKLMNOPQRSTUVWXYZ'' ''abcdefghijklmnopqrstuvwxyz'') c of
        Some l \<Rightarrow> l
      | None \<Rightarrow> c)"

definition lower :: "string \<Rightarrow> string" where
  \<comment> \<open>\<^verbatim>\<open>s.lower()\<close> on the ASCII letters; the bytes of a character beyond ASCII are kept.
      Python maps such a character to its lower-case form, which is never an ASCII letter
      of the format names below (only U+212A gives an ASCII letter, \<open>k\<close>, and U+0130 gives
      \<open>i\<close> followed by U+0307), so the lookup in \<open>formats\<close> has the same outcome.\<close>
  "lower s = map lower_char s"

text \<open>
  \<^verbatim>\<open>str.strip()\<close> removes the characters for which \<^verbatim>\<open>str.isspace()\<close> holds from both ends:
  U+0009..U+000D, U+001C..U+0020, U+0085, U+00A0, U+1680, U+2000..U+200A, U+2028, U+2029,
  U+202F, U+205F and U+3000. In UTF-8 they take one, two or three bytes.
\<close>

definition ws1 :: "char \<Rightarrow> bool" where
  "ws1 a = (let n = (of_char a :: nat) in (9 \<le> n \<and> n \<le> 13) \<or> (28 \<le> n \<and> n \<le> 32))"

definition ws2 :: "char \<Rightarrow> char \<Rightarrow> bool" where
  "ws2 a b = (a = CHR 0xC2 \<and> (b = CHR 0x85 \<or> b = CHR 0xA0))"

definition ws3 :: "char \<Rightarrow> char \<Rightarrow> char \<Rightarrow> bool" where
  "ws3 a b c =
     ((a = CHR 0xE1 \<and> b = CHR 0x9A \<and> c = CHR 0x80)
    \<or> (a = CHR 0xE2 \<and> b = CHR 0x80
         \<and> ((0x80 \<le> (of_char c :: nat) \<and> (of_char c :: nat) \<le> 0x8A)
              \<or> c = CHR 0xA8 \<or> c = CHR 0xA9 \<or> c = CHR 0xAF))
    \<or> (a = CHR 0xE2 \<and> b = CHR 0x81 \<and> c = CHR 0x9F)
    \<or> (a = CHR 0xE3 \<and> b = CHR 0x80 \<and> c = CHR 0x80))"

fun strip_front :: "bool \<Rightarrow> string \<Rightarrow> string" where
  \<comment> \<open>drops the white space at the head of a text; with \<open>back\<close> the text is reversed, and
      the bytes of a character come last byte first\<close>
  "strip_front back (a # b # c # r) =
     (if ws1 a then strip_front back (b # c # r)
      else if (if back then ws2 b a else ws2 a b) then strip_front back (c # r)
      else if (if back then ws3 c b a else ws3 a b c) then strip_front back r
      else a # b # c # r)"
| "strip_front back [a, b] =
     (if ws1 a then strip_front back [b]
      else if (if back then ws2 b a else ws2 a b) then []
      else [a, b])"
| "strip_front back [a] = (if ws1 a then [] else [a])"
| "strip_front back [] = []"

definition strip :: "string \<Rightarrow> string" where
  \<comment> \<open>\<^verbatim>\<open>s.strip()\<close>\<close>
  "strip s = rev (strip_front True (rev (strip_front False s)))"

text \<open>
  \<^verbatim>\<open>bytes.decode()\<close> decodes UTF-8 strictly: it raises \<^verbatim>\<open>UnicodeDecodeError\<close> on a byte
  sequence that is not well-formed UTF-8 (overlong forms, surrogates and code points above
  U+10FFFF included). A text being modelled by its UTF-8 encoding, decoding returns the
  bytes it is given when they are well formed.
\<close>

definition cont :: "nat \<Rightarrow> bool" where
  "cont b = (0x80 \<le> b \<and> b \<le> 0xBF)"

fun utf8_ok :: "nat list \<Rightarrow> bool" where
  "utf8_ok [] = True"
| "utf8_ok (b # bs) =
     (if b < 0x80 then utf8_ok bs
      else if 0xC2 \<le> b \<and> b \<le> 0xDF then
        (case bs of c1 # r \<Rightarrow> cont c1 \<and> utf8_ok r | _ \<Rightarrow> False)
      else if 0xE0 \<le> b \<and> b \<le> 0xEF then
        (case bs of
           c1 # c2 # r \<Rightarrow>
             (if b = 0xE0 then 0xA0 \<le> c1 \<and> c1 \<le> 0xBF
              else if b = 0xED then 0x80 \<le> c1 \<and> c1 \<le> 0x9F
              else cont c1)
             \<and> cont c2 \<and> utf8_ok r
         | _ \<Rightarrow> False)
      else if 0xF0 \<le> b \<and> b \<le> 0xF4 then
        (case bs of
           c1 # c2 # c3 # r \<Rightarrow>
             (if b = 0xF0 then 0x90 \<le> c1 \<and> c1 \<le> 0xBF
              else if b = 0xF4 then 0x80 \<le> c1 \<and> c1 \<le> 0x8F
              else cont c1)
             \<and> cont c2 \<and> cont c3 \<and> utf8_ok r
         | _ \<Rightarrow> False)
      else False)"

subsection \<open>Exceptions\<close>

datatype pyexc =
    FileNotFoundError string
  | OSError string
  | KeyError
  | UnicodeDecodeError
  | JSONDecodeError
  | ValueError

datatype exc_arg = Text string | Exc pyexc

datatype error =
    ThermoRawFileParserInstallationError exc_arg
  | ThermoRawFileParserRunError string
  | Uncaught pyexc

definition decode :: "bytes \<Rightarrow> pyexc + string" where
  \<comment> \<open>\<^verbatim>\<open>b.decode()\<close>\<close>
  "decode b = (if utf8_ok (map of_char b) then Inr b else Inl UnicodeDecodeError)"

subsection \<open>Values converted by \<^verbatim>\<open>str\<close>\<close>

text \<open>
  \<^verbatim>\<open>_run_command\<close> applies \<^verbatim>\<open>str\<close> to every option. The options of the model are texts and
  integers.
\<close>

datatype pyval = PyStr string | PyInt int

fun str_nat :: "nat \<Rightarrow> string" where
  "str_nat n =
     (if n < 10 then [''0123456789'' ! n]
      else str_nat (n div 10) @ [''0123456789'' ! (n mod 10)])"

fun py_str :: "pyval \<Rightarrow> string" where
  "py_str (PyStr s) = s"
| "py_str (PyInt i) = (if i < 0 then CHR ''-'' # str_nat (nat (- i)) else str_nat (nat i))"

subsection \<open>Paths (\<^verbatim>\<open>posixpath\<close>)\<close>

definition isabs :: "string \<Rightarrow> bool" where
  "isabs s = startswith s ''/''"

definition path_join :: "string \<Rightarrow> string \<Rightarrow> string" where
  \<comment> \<open>\<^verbatim>\<open>os.path.join(a, b)\<close>\<close>
  "path_join a b =
     (if startswith b ''/'' then b
      else if a = [] \<or> endswith a ''/'' then a @ b
      else a @ ''/'' @ b)"

definition norm_step :: "nat \<Rightarrow> string list \<Rightarrow> string \<Rightarrow> string list" where
  \<comment> \<open>the body of the loop of \<^verbatim>\<open>normpath\<close> over the components\<close>
  "norm_step initial_slashes new_comps cmp =
     (if cmp = [] \<or> cmp = ''.'' then new_comps
      else if cmp \<noteq> ''..'' \<or> (initial_slashes = 0 \<and> new_comps = [])
              \<or> (new_comps \<noteq> [] \<and> last new_comps = ''..'')
        then new_comps @ [cmp]
      else if new_comps \<noteq> [] then butlast new_comps
      else new_comps)"

definition normpath :: "string \<Rightarrow> string" where
  "normpath path =
     (if path = [] then ''.''
      else
        let initial_slashes =
              (if startswith path ''/'' then
                 (if startswith path ''//'' \<and> \<not> startswith path ''///'' then 2 else 1)
               else (0 :: nat));
            comps = foldl (norm_step initial_slashes) [] (split_on CHR ''/'' path);
            p = replicate initial_slashes CHR ''/'' @ join_with ''/'' comps
        in if p = [] then ''.'' else p)"

definition abspath :: "string \<Rightarrow> string \<Rightarrow> string" where
  \<comment> \<open>\<^verbatim>\<open>os.path.abspath(path)\<close>, the first argument being \<^verbatim>\<open>os.getcwd()\<close>\<close>
  "abspath cwd path = normpath (if \<not> isabs path then path_join cwd path else path)"

fun rstrip_sep :: "string \<Rightarrow> string" where
  \<comment> \<open>\<^verbatim>\<open>head.rstrip('/')\<close>, on the reversed text\<close>
  "rstrip_sep [] = []"
| "rstrip_sep (c # cs) = (if c = CHR ''/'' then rstrip_sep cs else c # cs)"

definition dirname :: "string \<Rightarrow> string" where
  \<comment> \<open>\<^verbatim>\<open>os.path.dirname(p)\<close>: the text up to the last \<open>/\<close>, without trailing separators
      unless it consists of separators only\<close>
  "dirname p =
     (let head = rev (dropWhile (\<lambda>c. c \<noteq> CHR ''/'') (rev p))
      in if head \<noteq> [] \<and> head \<noteq> replicate (length head) CHR ''/''
         then rev (rstrip_sep (rev head)) else head)"

subsection \<open>The outside world\<close>

text \<open>
  \<^verbatim>\<open>subprocess.run(cmd, check=False, capture_output=True)\<close> either raises (the command is not
  found, or another fault of the operating system) or completes with a return code and the
  captured output.
\<close>

record outcome =
  returncode :: int
  stdout :: bytes
  stderr :: bytes

datatype launch = Raised pyexc | Completed outcome

text \<open>The files of the file system, by path; a file holds bytes.\<close>

type_synonym fs = "string \<rightharpoonup> bytes"

text \<open>
  What the wrapper does not decide is a parameter: the working directory, the process
  launcher (which may change the files), the order in which Python iterates over the set
  built from a list, \<^verbatim>\<open>repr\<close> of a list of texts (used by the f-string of the run error),
  \<^verbatim>\<open>semver.match\<close>, the JSON decoder and encoder (\<open>None\<close> stands for \<^verbatim>\<open>JSONDecodeError\<close>), and
  the directory that \<^verbatim>\<open>tempfile.TemporaryDirectory()\<close> creates.
\<close>

record 'j env =
  cwd :: string
  run :: "string list \<Rightarrow> fs \<Rightarrow> launch \<times> fs"
  set_order :: "string list \<Rightarrow> string list"
  repr :: "string list \<Rightarrow> string"
  semver_match :: "string \<Rightarrow> string \<Rightarrow> pyexc + bool"
  json_loads :: "string \<Rightarrow> 'j option"
  json_dumps :: "'j \<Rightarrow> string"
  mkdtemp :: "fs \<Rightarrow> string"

definition set_semantics :: "'j env \<Rightarrow> bool" where
  \<comment> \<open>iterating over \<^verbatim>\<open>set(xs)\<close> yields every element of \<open>xs\<close> once, in some order\<close>
  "set_semantics env = (\<forall>xs. distinct (set_order env xs) \<and> set (set_order env xs) = set xs)"

definition rmtree :: "string \<Rightarrow> fs \<Rightarrow> fs" where
  \<comment> \<open>leaving the \<^verbatim>\<open>with\<close> block of a temporary directory removes the files below it\<close>
  "rmtree d fs = (\<lambda>p. if startswith p (path_join d []) then None else fs p)"

subsection \<open>The handle\<close>

record handle =
  executable :: string
  docker_image :: "string option"
  version_requirement :: string
  installed_version :: "string option"

subsection \<open>\<^verbatim>\<open>_run_command\<close>\<close>

definition docker_args :: "'j env \<Rightarrow> string list option \<Rightarrow> string list" where
  \<comment> \<open>lines 210 to 215: the mounts\<close>
  "docker_args env files =
     (case files of
        None \<Rightarrow> []
      | Some fl \<Rightarrow>
          if fl = [] then []
          else
            let file_paths = set_order env (map (abspath (cwd env)) fl);
                file_paths = set_order env (map dirname file_paths)
            in concat (map (\<lambda>f. [''-v'', f @ '':'' @ f]) file_paths))"

definition run_command_cmd ::
  "'j env \<Rightarrow> handle \<Rightarrow> pyval list \<Rightarrow> string list option \<Rightarrow> string list" where
  \<comment> \<open>lines 208 to 224: the command handed to \<^verbatim>\<open>subprocess.run\<close>\<close>
  "run_command_cmd env self options files =
     (let options = map py_str options;
          direct = [executable self] @ options
      in case docker_image self of
           None \<Rightarrow> direct
         | Some img \<Rightarrow>
             if img = [] then direct
             else [''docker'', ''run''] @ docker_args env files @ [img]
                  @ split_on CHR '' '' (executable self) @ options)"

definition run_command ::
  "'j env \<Rightarrow> handle \<Rightarrow> pyval list \<Rightarrow> string list option \<Rightarrow> bool \<Rightarrow> fs
     \<Rightarrow> (error + outcome) \<times> fs" where
  "run_command env self options files check fs =
     (let cmd = run_command_cmd env self options files
      in case run env cmd fs of
           (Raised e, fs') \<Rightarrow>
             (case e of
                FileNotFoundError m \<Rightarrow> (Inl (ThermoRawFileParserInstallationError (Exc e)), fs')
              | _ \<Rightarrow> (Inl (Uncaught e), fs'))
         | (Completed cmd_out, fs') \<Rightarrow>
             if check \<and> \<not> returncode cmd_out = 0 then
               (case decode (stderr cmd_out) of
                  Inl e \<Rightarrow> (Inl (Uncaught e), fs')
                | Inr text \<Rightarrow>
                    (Inl (ThermoRawFileParserRunError
                            (''Error running command '' @ repr env cmd @ '':''
                             @ [CHR 0x0A] @ text)), fs'))
             else (Inr cmd_out, fs'))"

subsection \<open>\<^verbatim>\<open>_validate_install\<close> and \<^verbatim>\<open>__init__\<close>\<close>

definition validate_install ::
  "'j env \<Rightarrow> handle \<Rightarrow> fs \<Rightarrow> (error + unit) \<times> handle \<times> fs" where
  \<comment> \<open>the handle returned is \<^verbatim>\<open>self\<close> as the method leaves it, also when it raises\<close>
  "validate_install env self fs =
     (case run_command env self [PyStr ''--version''] None True fs of
        (Inl e, fs') \<Rightarrow> (Inl e, self, fs')
      | (Inr cmd_out, fs') \<Rightarrow>
          if returncode cmd_out \<noteq> 0 then
            (case decode (stderr cmd_out) of
               Inl e \<Rightarrow> (Inl (Uncaught e), self, fs')
             | Inr text \<Rightarrow>
                 (Inl (ThermoRawFileParserInstallationError (Text (strip text))), self, fs'))
          else
            (case decode (stdout cmd_out) of
               Inl e \<Rightarrow> (Inl (Uncaught e), self, fs')
             | Inr text \<Rightarrow>
                 let self = self\<lparr>installed_version := Some (strip text)\<rparr>
                 in case semver_match env (strip text) (version_requirement self) of
                      Inl e \<Rightarrow> (Inl (Uncaught e), self, fs')
                    | Inr ok \<Rightarrow>
                        if \<not> ok then
                          (Inl (ThermoRawFileParserInstallationError
                                  (Text (''Installed version '' @ strip text
                                         @ '' does not match requirement ''
                                         @ version_requirement self))), self, fs')
                        else (Inr (), self, fs')))"

definition new_handle :: "string \<Rightarrow> string option \<Rightarrow> handle" where
  \<comment> \<open>lines 69 to 74: the attributes before validation\<close>
  "new_handle exe img =
     \<lparr>executable = exe, docker_image = img,
      version_requirement = ''>=1.3.3'', installed_version = None\<rparr>"

definition init :: "'j env \<Rightarrow> string \<Rightarrow> string option \<Rightarrow> fs \<Rightarrow> (error + handle) \<times> fs" where
  \<comment> \<open>\<^verbatim>\<open>ThermoRawFileParser(executable, docker_image)\<close>\<close>
  "init env exe img fs =
     (case validate_install env (new_handle exe img) fs of
        (Inl e, self, fs') \<Rightarrow> (Inl e, fs')
      | (Inr u, self, fs') \<Rightarrow> (Inr self, fs'))"

subsection \<open>The operations\<close>

definition formats :: "string \<rightharpoonup> string" where
  "formats = map_of [(''mgf'', ''0''), (''mzml'', ''1''), (''indexed_mzml'', ''2''),
                     (''parquet'', ''3''), (''scan_info'', ''4'')]"

definition parse_cmd_options ::
  "'j env \<Rightarrow> string \<Rightarrow> string option \<Rightarrow> pyval list option \<Rightarrow> pyexc + pyval list" where
  \<comment> \<open>lines 96 to 108; a missing key of \<open>formats\<close> raises \<^verbatim>\<open>KeyError\<close>\<close>
  "parse_cmd_options env input_file output_format options =
     (let input_file = abspath (cwd env) input_file;
          cmd_options = [PyStr ''-i'', PyStr input_file];
          with_format =
            (case output_format of
               None \<Rightarrow> Inr cmd_options
             | Some name \<Rightarrow>
                 if name = [] then Inr cmd_options
                 else (case formats (lower name) of
                         None \<Rightarrow> Inl KeyError
                       | Some code \<Rightarrow> Inr (cmd_options @ [PyStr ''-f'', PyStr code])))
      in case with_format of
           Inl e \<Rightarrow> Inl e
         | Inr cmd_options \<Rightarrow>
             Inr (cmd_options @ (case options of None \<Rightarrow> [] | Some extra \<Rightarrow> extra)))"

definition parse ::
  "'j env \<Rightarrow> handle \<Rightarrow> string \<Rightarrow> string option \<Rightarrow> pyval list option \<Rightarrow> fs
     \<Rightarrow> (error + unit) \<times> fs" where
  "parse env self input_file output_format options fs =
     (case parse_cmd_options env input_file output_format options of
        Inl e \<Rightarrow> (Inl (Uncaught e), fs)
      | Inr cmd_options \<Rightarrow>
          (case run_command env self cmd_options
                  (Some [abspath (cwd env) input_file]) True fs of
             (Inl e, fs') \<Rightarrow> (Inl e, fs')
           | (Inr cmd_out, fs') \<Rightarrow> (Inr (), fs')))"

definition metadata_cmd_options :: "'j env \<Rightarrow> string \<Rightarrow> string \<Rightarrow> pyval list" where
  \<comment> \<open>lines 127 and 130, the second argument being \<^verbatim>\<open>output_file\<close>\<close>
  "metadata_cmd_options env input_file output_file =
     [PyStr ''-i'', PyStr (abspath (cwd env) input_file), PyStr ''-c'', PyStr output_file,
      PyStr ''-m'', PyStr ''0'']"

definition metadata :: "'j env \<Rightarrow> handle \<Rightarrow> string \<Rightarrow> fs \<Rightarrow> (error + 'j) \<times> fs" where
  \<comment> \<open>\<^verbatim>\<open>open(output_file)\<close> raises \<^verbatim>\<open>FileNotFoundError\<close> on an absent file; \<^verbatim>\<open>json.load\<close> reads
      the file as text, decoding it strictly (UTF-8 being the encoding of the platform),
      and parses what it has read\<close>
  "metadata env self input_file fs =
     (let tmp_dir = mkdtemp env fs;
          output_file = path_join tmp_dir ''meta.json'';
          cmd_options = metadata_cmd_options env input_file output_file
      in case run_command env self cmd_options
                (Some [abspath (cwd env) input_file, output_file]) True fs of
           (Inl e, fs') \<Rightarrow> (Inl e, rmtree tmp_dir fs')
         | (Inr cmd_out, fs') \<Rightarrow>
             (case fs' output_file of
                None \<Rightarrow> (Inl (Uncaught (FileNotFoundError output_file)), rmtree tmp_dir fs')
              | Some content \<Rightarrow>
                  (case decode content of
                     Inl e \<Rightarrow> (Inl (Uncaught e), rmtree tmp_dir fs')
                   | Inr text \<Rightarrow>
                       (case json_loads env text of
                          None \<Rightarrow> (Inl (Uncaught JSONDecodeError), rmtree tmp_dir fs')
                        | Some m \<Rightarrow> (Inr m, rmtree tmp_dir fs')))))"

definition loads_stdout :: "'j env \<Rightarrow> outcome \<Rightarrow> error + 'j" where
  \<comment> \<open>\<^verbatim>\<open>json.loads(cmd_out.stdout.decode().strip())\<close>, lines 162 and 194\<close>
  "loads_stdout env cmd_out =
     (case decode (stdout cmd_out) of
        Inl e \<Rightarrow> Inl (Uncaught e)
      | Inr text \<Rightarrow>
          (case json_loads env (strip text) of
             None \<Rightarrow> Inl (Uncaught JSONDecodeError)
           | Some j \<Rightarrow> Inr j))"

definition query_cmd_options ::
  "'j env \<Rightarrow> string \<Rightarrow> pyval \<Rightarrow> pyval list option \<Rightarrow> pyval list" where
  \<comment> \<open>lines 157 to 160\<close>
  "query_cmd_options env input_file scans options =
     [PyStr ''query'', PyStr ''-i'', PyStr (abspath (cwd env) input_file), PyStr ''-n'', scans,
      PyStr ''-s'']
     @ (case options of None \<Rightarrow> [] | Some extra \<Rightarrow> extra)"

definition query ::
  "'j env \<Rightarrow> handle \<Rightarrow> string \<Rightarrow> pyval \<Rightarrow> pyval list option \<Rightarrow> fs \<Rightarrow> (error + 'j) \<times> fs" where
  "query env self input_file scans options fs =
     (case run_command env self (query_cmd_options env input_file scans options)
             (Some [abspath (cwd env) input_file]) True fs of
        (Inl e, fs') \<Rightarrow> (Inl e, fs')
      | (Inr cmd_out, fs') \<Rightarrow> (loads_stdout env cmd_out, fs'))"

definition xic_cmd_options :: "'j env \<Rightarrow> string \<Rightarrow> string \<Rightarrow> bool \<Rightarrow> pyval list" where
  \<comment> \<open>lines 185 and 190 to 192, the second argument being \<^verbatim>\<open>query_file\<close>\<close>
  "xic_cmd_options env input_file query_file base64 =
     [PyStr ''xic'', PyStr ''-i'', PyStr (abspath (cwd env) input_file), PyStr ''-j'',
      PyStr query_file, PyStr ''-s'']
     @ (if base64 then [PyStr ''--base64''] else [])"


subsection \<open>An example world\<close>

text \<open>
  The theorems below hold in every world. To instantiate them, here is one: the working
  directory is \<open>/data\<close>, sets are iterated in the order \<open>remdups\<close> gives, temporary
  directories are \<open>/tmp/tmpq1\<close>, and the collaborators are cut down to the inputs of
  the examples: \<open>repr_list\<close> prints a list of texts as Python does when the texts are
  printable, \<open>semver_ge\<close> compares versions \<open>MAJOR.MINOR.PATCH\<close> of numbers against
  a requirement \<open>>=MAJOR.MINOR.PATCH\<close>, and the JSON values are \<open>null\<close>, the Booleans
  and arrays of them, of which the decoder knows four texts.
\<close>

definition repr_char :: "char \<Rightarrow> char \<Rightarrow> string" where
  "repr_char q c =
     (if c = CHR 0x5C \<or> c = q then [CHR 0x5C, c]
      else if c = CHR 0x0A then [CHR 0x5C, CHR ''n'']
      else if c = CHR 0x0D then [CHR 0x5C, CHR ''r'']
      else if c = CHR 0x09 then [CHR 0x5C, CHR ''t'']
      else if (of_char c :: nat) < 32 \<or> c = CHR 0x7F then
        [CHR 0x5C, CHR ''x'', ''0123456789abcdef'' ! (of_char c div 16),
         ''0123456789abcdef'' ! (of_char c mod 16)]
      else [c])"

definition repr_str :: "string \<Rightarrow> string" where
  "repr_str s =
     (let q = (if CHR 0x27 \<in> set s \<and> CHR 0x22 \<notin> set s then CHR 0x22 else CHR 0x27)
      in [q] @ concat (map (repr_char q) s) @ [q])"

definition repr_list :: "string list \<Rightarrow> string" where
  "repr_list xs = ''['' @ join_with '', '' (map repr_str xs) @ '']''"

definition number :: "string \<Rightarrow> nat option" where
  "number s =
     (if s \<noteq> [] \<and> list_all (\<lambda>c. c \<in> set ''0123456789'') s \<and> (length s = 1 \<or> hd s \<noteq> CHR ''0'')
      then Some (foldl (\<lambda>n c. 10 * n + (of_char c - 48)) 0 s) else None)"

definition version :: "string \<Rightarrow> (nat \<times> nat \<times> nat) option" where
  "version s =
     (case map number (split_on CHR ''.'' s) of
        [Some a, Some b, Some c] \<Rightarrow> Some (a, b, c)
      | _ \<Rightarrow> None)"

definition semver_ge :: "string \<Rightarrow> string \<Rightarrow> pyexc + bool" where
  "semver_ge v expr =
     (if startswith expr ''>='' then
        (case (version v, version (drop 2 expr)) of
           (Some (a, b, c), Some (a', b', c')) \<Rightarrow>
             Inr (a' < a \<or> (a' = a \<and> (b' < b \<or> (b' = b \<and> c' \<le> c))))
         | _ \<Rightarrow> Inl ValueError)
      else Inl ValueError)"

datatype json = JNull | JBool bool | JArray "json list"

fun dumps :: "json \<Rightarrow> string" where
  "dumps JNull = ''null''"
| "dumps (JBool b) = (if b then ''true'' else ''false'')"
| "dumps (JArray xs) = ''['' @ join_with '', '' (map dumps xs) @ '']''"

definition loads :: "string \<Rightarrow> json option" where
  "loads = map_of [(''null'', JNull), (''true'', JBool True), (''false'', JBool False),
                   (''[]'', JArray [])]"

definition world :: "(string list \<Rightarrow> fs \<Rightarrow> launch \<times> fs) \<Rightarrow> json env" where
  "world r =
     \<lparr>cwd = ''/data'', run = r, set_order = remdups, repr = repr_list,
      semver_match = semver_ge, json_loads = loads, json_dumps = dumps,
      mkdtemp = (\<lambda>fs. ''/tmp/tmpq1'')\<rparr>"

definition tool :: "int \<Rightarrow> bytes \<Rightarrow> bytes \<Rightarrow> string list \<Rightarrow> fs \<Rightarrow> launch \<times> fs" where
  \<comment> \<open>a tool that exits with the return code and the output given\<close>
  "tool rc out err cmd fs = (Completed \<lparr>returncode = rc, stdout = out, stderr = err\<rparr>, fs)"

definition tool_writing ::
  "string \<Rightarrow> bytes \<Rightarrow> string list \<Rightarrow> fs \<Rightarrow> launch \<times> fs" where
  \<comment> \<open>a tool that writes a file and exits with return code 0\<close>
  "tool_writing path content cmd fs =
     (Completed \<lparr>returncode = 0, stdout = [], stderr = []\<rparr>, fs(path \<mapsto> content))"

definition no_tool :: "string list \<Rightarrow> fs \<Rightarrow> launch \<times> fs" where
  \<comment> \<open>no such command\<close>
  "no_tool cmd fs = (Raised (FileNotFoundError ''No such file or directory''), fs)"

section \<open>Properties\<close>

subsection \<open>What \<^verbatim>\<open>_run_command\<close> returns\<close>

lemma run_command_completed:
  assumes "run env (run_command_cmd env self options files) fs = (Completed out, fs')"
  shows "run_command env self options files check fs =
           (if check \<and> returncode out \<noteq> 0 then
              (case decode (stderr out) of
                 Inl e \<Rightarrow> (Inl (Uncaught e), fs')
               | Inr text \<Rightarrow>
                   (Inl (ThermoRawFileParserRunError
                           (''Error running command ''
                            @ repr env (run_command_cmd env self options files)
                            @ '':'' @ [CHR 0x0A] @ text)), fs'))
            else (Inr out, fs'))"
  using assms by (simp add: run_command_def)

lemma run_command_not_found:
  assumes "run env (run_command_cmd env self options files) fs
             = (Raised (FileNotFoundError m), fs')"
  shows "run_command env self options files check fs =
           (Inl (ThermoRawFileParserInstallationError (Exc (FileNotFoundError m))), fs')"
  using assms by (simp add: run_command_def)

subsection \<open>The command that is launched\<close>

text \<open>
  C2. The claim is that without a container image the command is the executable split
  into its tokens, followed by the arguments. Only the container branch splits the
  executable; the direct branch hands it over as one element, so that the executable
  \<open>mono ThermoRawFileParser.exe\<close> of the constructor's documentation is launched as a
  single program name. The theorem states what the direct branch builds: with no image
  (\<open>None\<close> or the empty text) the command is the executable, unsplit, followed by the
  arguments converted by \<^verbatim>\<open>str\<close>.
\<close>

theorem direct_mode_command_keeps_executable_whole:
  assumes "docker_image self = None \<or> docker_image self = Some []"
  shows "run_command_cmd env self options files = executable self # map py_str options"
  using assms by (auto simp add: run_command_cmd_def Let_def)

theorem direct_mode_command_keeps_executable_whole_witness:
  "docker_image (new_handle ''mono ThermoRawFileParser.exe'' None) = None
   \<and> run_command_cmd (world no_tool) (new_handle ''mono ThermoRawFileParser.exe'' None)
         [PyStr ''--version''] None
       = [''mono ThermoRawFileParser.exe'', ''--version'']
   \<and> split_on CHR '' '' ''mono ThermoRawFileParser.exe'' @ map py_str [PyStr ''--version'']
       = [''mono'', ''ThermoRawFileParser.exe'', ''--version'']"
proof -
  have h: "docker_image (new_handle ''mono ThermoRawFileParser.exe'' None) = None
           \<or> docker_image (new_handle ''mono ThermoRawFileParser.exe'' None) = Some []"
    by (simp add: new_handle_def)
  show ?thesis
    using direct_mode_command_keeps_executable_whole [OF h, of "world no_tool" "[PyStr ''--version'']" None]
    by (simp add: new_handle_def)
qed

lemma world_set_semantics: "set_semantics (world r)"
  by (simp add: set_semantics_def world_def)

lemma docker_args_mounts:
  assumes "set_semantics env"
  shows "\<exists>ds. distinct ds
           \<and> set ds = (\<lambda>f. dirname (abspath (cwd env) f))
                        ` set (case files of None \<Rightarrow> [] | Some fl \<Rightarrow> fl)
           \<and> docker_args env files = concat (map (\<lambda>d. [''-v'', d @ '':'' @ d]) ds)"
proof (cases files)
  case None
  then show ?thesis by (simp add: docker_args_def)
next
  case (Some fl)
  let ?ds = "set_order env (map dirname (set_order env (map (abspath (cwd env)) fl)))"
  from assms have d: "distinct ?ds"
    and s: "set ?ds = set (map dirname (set_order env (map (abspath (cwd env)) fl)))"
    and s': "set (set_order env (map (abspath (cwd env)) fl)) = set (map (abspath (cwd env)) fl)"
    by (simp_all add: set_semantics_def)
  have "set ?ds = (\<lambda>f. dirname (abspath (cwd env) f)) ` set fl"
    using s s' by (simp add: image_image)
  moreover have "docker_args env files = concat (map (\<lambda>d. [''-v'', d @ '':'' @ d]) ?ds)"
  proof (cases "fl = []")
    case True
    with s s' have "set ?ds = {}" by simp
    then have "?ds = []" by simp
    with True Some show ?thesis by (simp add: docker_args_def)
  next
    case False
    with Some show ?thesis by (simp add: docker_args_def Let_def)
  qed
  ultimately show ?thesis using d Some by auto
qed

text \<open>
  C4. With a container image configured, the command is \<open>docker\<close>, \<open>run\<close>, one pair
  \<open>-v d:d\<close> for each parent directory \<open>d\<close> of the absolute paths of the files, every
  directory once and no other mount, then the image, the executable split at its spaces,
  and the arguments. The order of the mounts is the order in which Python iterates over
  the set of directories.
\<close>

theorem docker_command_mounts:
  assumes "set_semantics env" and "docker_image self = Some img" and "img \<noteq> []"
  shows "\<exists>ds. distinct ds
           \<and> set ds = (\<lambda>f. dirname (abspath (cwd env) f))
                        ` set (case files of None \<Rightarrow> [] | Some fl \<Rightarrow> fl)
           \<and> run_command_cmd env self options files
               = [''docker'', ''run''] @ concat (map (\<lambda>d. [''-v'', d @ '':'' @ d]) ds) @ [img]
                 @ split_on CHR '' '' (executable self) @ map py_str options"
proof -
  from docker_args_mounts [OF assms(1), of files] obtain ds where
    "distinct ds"
    "set ds = (\<lambda>f. dirname (abspath (cwd env) f))
                 ` set (case files of None \<Rightarrow> [] | Some fl \<Rightarrow> fl)"
    "docker_args env files = concat (map (\<lambda>d. [''-v'', d @ '':'' @ d]) ds)"
    by blast
  moreover from assms(2,3) have "run_command_cmd env self options files
               = [''docker'', ''run''] @ docker_args env files @ [img]
                 @ split_on CHR '' '' (executable self) @ map py_str options"
    by (simp add: run_command_cmd_def Let_def)
  ultimately show ?thesis by auto
qed

theorem docker_command_mounts_witness:
  "set_semantics (world no_tool)
   \<and> run_command_cmd (world no_tool) (new_handle ''mono ThermoRawFileParser.exe'' (Some ''trfp:1.3.3''))
        [PyStr ''-i'', PyStr ''/data/a.raw'', PyStr ''-c'', PyStr ''/tmp/tmpq1/meta.json'']
        (Some [''/data/a.raw'', ''/tmp/tmpq1/meta.json'', ''b.raw''])
      = [''docker'', ''run'', ''-v'', ''/tmp/tmpq1:/tmp/tmpq1'', ''-v'', ''/data:/data'', ''trfp:1.3.3'',
         ''mono'', ''ThermoRawFileParser.exe'', ''-i'', ''/data/a.raw'', ''-c'', ''/tmp/tmpq1/meta.json'']
   \<and> (\<exists>ds. distinct ds \<and> set ds = {''/data'', ''/tmp/tmpq1''}
         \<and> run_command_cmd (world no_tool) (new_handle ''mono ThermoRawFileParser.exe'' (Some ''trfp:1.3.3''))
              [PyStr ''-i'', PyStr ''/data/a.raw'', PyStr ''-c'', PyStr ''/tmp/tmpq1/meta.json'']
              (Some [''/data/a.raw'', ''/tmp/tmpq1/meta.json'', ''b.raw''])
            = [''docker'', ''run''] @ concat (map (\<lambda>d. [''-v'', d @ '':'' @ d]) ds)
              @ [''trfp:1.3.3'', ''mono'', ''ThermoRawFileParser.exe'', ''-i'', ''/data/a.raw'', ''-c'',
                 ''/tmp/tmpq1/meta.json''])"
proof -
  let ?w = "world no_tool"
  let ?h = "new_handle ''mono ThermoRawFileParser.exe'' (Some ''trfp:1.3.3'')"
  have a: "set_semantics ?w" by (rule world_set_semantics)
  have b: "docker_image ?h = Some ''trfp:1.3.3''" by (simp add: new_handle_def)
  have c: "''trfp:1.3.3'' \<noteq> []" by simp
  have dirs: "(\<lambda>f. dirname (abspath (cwd ?w) f)) ` set [''/data/a.raw'', ''/tmp/tmpq1/meta.json'', ''b.raw'']
              = {''/data'', ''/tmp/tmpq1''}"
    by code_simp
  have e: "run_command_cmd ?w ?h
        [PyStr ''-i'', PyStr ''/data/a.raw'', PyStr ''-c'', PyStr ''/tmp/tmpq1/meta.json'']
        (Some [''/data/a.raw'', ''/tmp/tmpq1/meta.json'', ''b.raw''])
      = [''docker'', ''run'', ''-v'', ''/tmp/tmpq1:/tmp/tmpq1'', ''-v'', ''/data:/data'', ''trfp:1.3.3'',
         ''mono'', ''ThermoRawFileParser.exe'', ''-i'', ''/data/a.raw'', ''-c'', ''/tmp/tmpq1/meta.json'']"
    by code_simp
  show ?thesis
    using a e dirs docker_command_mounts [OF a b c,
        of "Some [''/data/a.raw'', ''/tmp/tmpq1/meta.json'', ''b.raw'']"
           "[PyStr ''-i'', PyStr ''/data/a.raw'', PyStr ''-c'', PyStr ''/tmp/tmpq1/meta.json'']"]
    by (simp add: new_handle_def)
qed

subsection \<open>Strict checking\<close>

text \<open>
  C5. The claim is that with strict checking every non-zero exit raises the run error
  whose message holds the command and the standard error, and that without strict
  checking the outcome is returned. \<^verbatim>\<open>_run_command\<close> raises the run error on every
  non-zero exit under strict checking, but builds its message by decoding the standard
  error strictly, which fails on bytes that are not UTF-8 before the run error exists: at
  a non-zero return code and the standard error \<open>0xFF\<close> the decoding error is raised
  in its place. The theorem states what \<^verbatim>\<open>_run_command\<close> does for a process that
  completes: with strict checking and a non-zero return code, a standard error that
  decodes gives the run error whose message is \<open>Error running command\<close>, \<^verbatim>\<open>repr\<close> of the
  command, a colon, a line break and the decoded text, and a standard error that does not
  decode gives the decoding error; without strict checking the outcome is returned as it
  is, whatever the return code.
\<close>

theorem run_command_strict_checking:
  assumes "run env (run_command_cmd env self options files) fs = (Completed out, fs')"
  shows "(returncode out \<noteq> 0 \<and> decode (stderr out) = Inr text \<longrightarrow>
            run_command env self options files True fs
              = (Inl (ThermoRawFileParserRunError
                        (''Error running command ''
                         @ repr env (run_command_cmd env self options files)
                         @ '':'' @ [CHR 0x0A] @ text)), fs'))
       \<and> (returncode out \<noteq> 0 \<and> decode (stderr out) = Inl e \<longrightarrow>
            run_command env self options files True fs = (Inl (Uncaught e), fs'))
       \<and> run_command env self options files False fs = (Inr out, fs')"
  by (simp add: run_command_completed [OF assms])

theorem run_command_strict_checking_witness:
  "run_command (world (tool 2 ''partial'' ''no such file'')) (new_handle ''thermorawfileparser'' None)
       [PyStr ''-i'', PyStr ''/data/a.raw''] (Some [''/data/a.raw'']) True Map.empty
     = (Inl (ThermoRawFileParserRunError
               (''Error running command ['thermorawfileparser', '-i', '/data/a.raw']:''
                @ [CHR 0x0A] @ ''no such file'')), Map.empty)
   \<and> run_command (world (tool 2 [] [CHR 0xFF])) (new_handle ''thermorawfileparser'' None)
       [PyStr ''-i'', PyStr ''/data/a.raw''] (Some [''/data/a.raw'']) True Map.empty
     = (Inl (Uncaught UnicodeDecodeError), Map.empty)
   \<and> run_command (world (tool 2 ''partial'' ''no such file'')) (new_handle ''thermorawfileparser'' None)
       [PyStr ''-i'', PyStr ''/data/a.raw''] (Some [''/data/a.raw'']) False Map.empty
     = (Inr \<lparr>returncode = 2, stdout = ''partial'', stderr = ''no such file''\<rparr>, Map.empty)"
proof -
  let ?h = "new_handle ''thermorawfileparser'' None"
  let ?o = "[PyStr ''-i'', PyStr ''/data/a.raw'']"
  let ?f = "Some [''/data/a.raw'']"
  let ?w = "world (tool 2 ''partial'' ''no such file'')"
  let ?out = "\<lparr>returncode = 2, stdout = ''partial'', stderr = ''no such file''\<rparr>"
  let ?w' = "world (tool 2 [] [CHR 0xFF])"
  let ?out' = "\<lparr>returncode = 2, stdout = [], stderr = [CHR 0xFF]\<rparr>"
  have r: "run ?w (run_command_cmd ?w ?h ?o ?f) Map.empty = (Completed ?out, Map.empty)"
    by (simp add: world_def tool_def)
  have r': "run ?w' (run_command_cmd ?w' ?h ?o ?f) Map.empty = (Completed ?out', Map.empty)"
    by (simp add: world_def tool_def)
  have d: "returncode ?out \<noteq> 0 \<and> decode (stderr ?out) = Inr ''no such file''"
    by (simp add: decode_def)
  have d': "returncode ?out' \<noteq> 0 \<and> decode (stderr ?out') = Inl UnicodeDecodeError"
    by (simp add: decode_def)
  have e: "repr ?w (run_command_cmd ?w ?h ?o ?f) = ''['thermorawfileparser', '-i', '/data/a.raw']''"
    by (simp add: world_def run_command_cmd_def new_handle_def repr_list_def repr_str_def
        repr_char_def Let_def)
  show ?thesis
    using run_command_strict_checking [OF r, of "''no such file''" UnicodeDecodeError]
      run_command_strict_checking [OF r', of "[]" UnicodeDecodeError] d d' e
    by simp
qed

subsection \<open>The version probe\<close>

lemma validate_install_probe_ok:
  assumes "run env (run_command_cmd env self [PyStr ''--version''] None) fs = (Completed out, fs')"
    and "returncode out = 0"
    and "decode (stdout out) = Inr text"
  shows "validate_install env self fs =
           (case semver_match env (strip text) (version_requirement self) of
              Inl e \<Rightarrow> (Inl (Uncaught e), self\<lparr>installed_version := Some (strip text)\<rparr>, fs')
            | Inr ok \<Rightarrow>
                if ok then (Inr (), self\<lparr>installed_version := Some (strip text)\<rparr>, fs')
                else (Inl (ThermoRawFileParserInstallationError
                             (Text (''Installed version '' @ strip text
                                    @ '' does not match requirement ''
                                    @ version_requirement self))),
                      self\<lparr>installed_version := Some (strip text)\<rparr>, fs'))"
  using assms
  by (simp add: validate_install_def run_command_completed Let_def split: sum.splits)

text \<open>
  C1. The claim is that a version probe which runs and exits with a non-zero return code
  makes the constructor fail with the installation error that carries the standard error
  of the probe. The branch of \<^verbatim>\<open>_validate_install\<close> that would raise it is never reached:
  the probe goes through \<^verbatim>\<open>_run_command\<close> with strict checking, which raises the run error
  first. The theorem states what the constructor does: whenever the probe completes with
  a non-zero return code and a standard error that decodes, construction fails with the
  run error whose message names the command and ends with that text.
\<close>

theorem probe_nonzero_exit_raises_run_error:
  assumes "run env (run_command_cmd env (new_handle exe img) [PyStr ''--version''] None) fs
             = (Completed out, fs')"
    and "returncode out \<noteq> 0"
    and "decode (stderr out) = Inr text"
  shows "init env exe img fs =
           (Inl (ThermoRawFileParserRunError
                   (''Error running command ''
                    @ repr env
                        (run_command_cmd env (new_handle exe img) [PyStr ''--version''] None)
                    @ '':'' @ [CHR 0x0A] @ text)), fs')"
  using assms by (simp add: init_def validate_install_def run_command_completed)

theorem probe_nonzero_exit_raises_run_error_witness:
  "returncode \<lparr>returncode = 1, stdout = [], stderr = ''boom''\<rparr> \<noteq> 0
   \<and> init (world (tool 1 [] ''boom'')) ''thermorawfileparser'' None Map.empty
       = (Inl (ThermoRawFileParserRunError
                 (''Error running command ['thermorawfileparser', '--version']:''
                  @ [CHR 0x0A] @ ''boom'')), Map.empty)"
proof -
  let ?env = "world (tool 1 [] ''boom'')"
  let ?out = "\<lparr>returncode = 1, stdout = [], stderr = ''boom''\<rparr>"
  let ?cmd = "run_command_cmd ?env (new_handle ''thermorawfileparser'' None)
                [PyStr ''--version''] None"
  have r: "run ?env ?cmd Map.empty = (Completed ?out, Map.empty)"
    by (simp add: world_def tool_def)
  have c: "returncode ?out \<noteq> 0"
    by simp
  have d: "decode (stderr ?out) = Inr ''boom''"
    by (simp add: decode_def)
  have e: "repr ?env ?cmd = ''['thermorawfileparser', '--version']''"
    by (simp add: world_def run_command_cmd_def new_handle_def repr_list_def repr_str_def
        repr_char_def Let_def)
  show ?thesis
    using probe_nonzero_exit_raises_run_error [OF r c d] e by simp
qed

text \<open>
  C6. Let the probe exit with return code 0. When its stripped standard output is
  \<open>1.3.2\<close>, which the comparator rejects for the requirement \<open>>=1.3.3\<close>, construction
  fails with the installation error that names both versions. When it is \<open>1.3.3\<close>,
  which the comparator accepts, construction succeeds and the handle's
  \<open>installed_version\<close> is \<open>1.3.3\<close>. The comparator is a parameter; its two answers are
  hypotheses.
\<close>

theorem version_gate:
  assumes "run env (run_command_cmd env (new_handle exe img) [PyStr ''--version''] None) fs
             = (Completed out, fs')"
    and "returncode out = 0"
    and "decode (stdout out) = Inr text"
  shows "(strip text = ''1.3.2'' \<and> semver_match env ''1.3.2'' ''>=1.3.3'' = Inr False \<longrightarrow>
            init env exe img fs
              = (Inl (ThermoRawFileParserInstallationError
                        (Text ''Installed version 1.3.2 does not match requirement >=1.3.3'')),
                 fs'))
       \<and> (strip text = ''1.3.3'' \<and> semver_match env ''1.3.3'' ''>=1.3.3'' = Inr True \<longrightarrow>
            init env exe img fs
              = (Inr \<lparr>executable = exe, docker_image = img, version_requirement = ''>=1.3.3'',
                      installed_version = Some ''1.3.3''\<rparr>, fs'))"
proof (intro conjI impI)
  note v = validate_install_probe_ok [OF assms]
  have q: "version_requirement (new_handle exe img) = ''>=1.3.3''"
    by (simp add: new_handle_def)
  {
    assume "strip text = ''1.3.2'' \<and> semver_match env ''1.3.2'' ''>=1.3.3'' = Inr False"
    then show "init env exe img fs
              = (Inl (ThermoRawFileParserInstallationError
                        (Text ''Installed version 1.3.2 does not match requirement >=1.3.3'')),
                 fs')"
      by (simp add: init_def v q)
  next
    assume "strip text = ''1.3.3'' \<and> semver_match env ''1.3.3'' ''>=1.3.3'' = Inr True"
    then show "init env exe img fs
              = (Inr \<lparr>executable = exe, docker_image = img, version_requirement = ''>=1.3.3'',
                      installed_version = Some ''1.3.3''\<rparr>, fs')"
      by (simp add: init_def v q) (simp add: new_handle_def)
  }
qed

theorem version_gate_witness:
  "semver_match (world (tool 0 (''1.3.2'' @ [CHR 0x0A]) [])) ''1.3.2'' ''>=1.3.3'' = Inr False
   \<and> init (world (tool 0 (''1.3.2'' @ [CHR 0x0A]) [])) ''thermorawfileparser'' None Map.empty
       = (Inl (ThermoRawFileParserInstallationError
                 (Text ''Installed version 1.3.2 does not match requirement >=1.3.3'')), Map.empty)
   \<and> semver_match (world (tool 0 (''1.3.3'' @ [CHR 0x0A]) [])) ''1.3.3'' ''>=1.3.3'' = Inr True
   \<and> init (world (tool 0 (''1.3.3'' @ [CHR 0x0A]) [])) ''thermorawfileparser'' None Map.empty
       = (Inr \<lparr>executable = ''thermorawfileparser'', docker_image = None,
               version_requirement = ''>=1.3.3'', installed_version = Some ''1.3.3''\<rparr>, Map.empty)"
proof -
  let ?h = "new_handle ''thermorawfileparser'' None"
  let ?w2 = "world (tool 0 (''1.3.2'' @ [CHR 0x0A]) [])"
  let ?o2 = "\<lparr>returncode = 0, stdout = ''1.3.2'' @ [CHR 0x0A], stderr = []\<rparr>"
  let ?w3 = "world (tool 0 (''1.3.3'' @ [CHR 0x0A]) [])"
  let ?o3 = "\<lparr>returncode = 0, stdout = ''1.3.3'' @ [CHR 0x0A], stderr = []\<rparr>"
  have r2: "run ?w2 (run_command_cmd ?w2 ?h [PyStr ''--version''] None) Map.empty
              = (Completed ?o2, Map.empty)"
    by (simp add: world_def tool_def)
  have r3: "run ?w3 (run_command_cmd ?w3 ?h [PyStr ''--version''] None) Map.empty
              = (Completed ?o3, Map.empty)"
    by (simp add: world_def tool_def)
  have c2: "returncode ?o2 = 0" and c3: "returncode ?o3 = 0"
    by simp_all
  have d2: "decode (stdout ?o2) = Inr (''1.3.2'' @ [CHR 0x0A])"
    and d3: "decode (stdout ?o3) = Inr (''1.3.3'' @ [CHR 0x0A])"
    by (simp_all add: decode_def)
  have s2: "strip (''1.3.2'' @ [CHR 0x0A]) = ''1.3.2''"
    and s3: "strip (''1.3.3'' @ [CHR 0x0A]) = ''1.3.3''"
    by (simp_all add: strip_def ws1_def ws2_def ws3_def)
  have m2: "semver_match ?w2 ''1.3.2'' ''>=1.3.3'' = Inr False"
    and m3: "semver_match ?w3 ''1.3.3'' ''>=1.3.3'' = Inr True"
    by (simp_all add: world_def semver_ge_def version_def number_def startswith_def)
  show ?thesis
    using version_gate [OF r2 c2 d2] version_gate [OF r3 c3 d3] s2 s3 m2 m3
    by simp
qed

text \<open>
  C8. When the launcher does not find the command of the version probe, construction
  fails with the installation error that wraps the launcher's \<^verbatim>\<open>FileNotFoundError\<close>; the
  launch failure itself does not escape.
\<close>

theorem missing_command_raises_installation_error:
  assumes "run env (run_command_cmd env (new_handle exe img) [PyStr ''--version''] None) fs
             = (Raised (FileNotFoundError m), fs')"
  shows "init env exe img fs
           = (Inl (ThermoRawFileParserInstallationError (Exc (FileNotFoundError m))), fs')"
  using assms by (simp add: init_def validate_install_def run_command_not_found)

theorem missing_command_raises_installation_error_witness:
  "run (world no_tool)
      (run_command_cmd (world no_tool) (new_handle ''nonexistent'' None) [PyStr ''--version''] None)
      Map.empty
     = (Raised (FileNotFoundError ''No such file or directory''), Map.empty)
   \<and> init (world no_tool) ''nonexistent'' None Map.empty
     = (Inl (ThermoRawFileParserInstallationError
               (Exc (FileNotFoundError ''No such file or directory''))), Map.empty)"
proof -
  have r: "run (world no_tool)
      (run_command_cmd (world no_tool) (new_handle ''nonexistent'' None) [PyStr ''--version''] None)
      Map.empty
     = (Raised (FileNotFoundError ''No such file or directory''), Map.empty)"
    by (simp add: world_def no_tool_def)
  show ?thesis
    using r missing_command_raises_installation_error [OF r] by simp
qed

text \<open>
  C9. When the probe exits with return code 0 and the version it reports does not match
  the requirement, \<^verbatim>\<open>_validate_install\<close> raises the installation error after it has stored
  the reported version: the handle it leaves has \<open>installed_version\<close> set to the
  stripped standard output, not to \<open>None\<close>.
\<close>

theorem failed_range_check_keeps_installed_version:
  assumes "run env (run_command_cmd env self [PyStr ''--version''] None) fs = (Completed out, fs')"
    and "returncode out = 0"
    and "decode (stdout out) = Inr text"
    and "semver_match env (strip text) (version_requirement self) = Inr False"
  shows "validate_install env self fs
           = (Inl (ThermoRawFileParserInstallationError
                     (Text (''Installed version '' @ strip text
                            @ '' does not match requirement '' @ version_requirement self))),
              self\<lparr>installed_version := Some (strip text)\<rparr>, fs')"
  using assms(4) by (simp add: validate_install_probe_ok [OF assms(1-3)])

theorem failed_range_check_keeps_installed_version_witness:
  "semver_match (world (tool 0 (''1.3.2'' @ [CHR 0x0A]) [])) ''1.3.2'' ''>=1.3.3'' = Inr False
   \<and> validate_install (world (tool 0 (''1.3.2'' @ [CHR 0x0A]) []))
        (new_handle ''thermorawfileparser'' None) Map.empty
     = (Inl (ThermoRawFileParserInstallationError
               (Text ''Installed version 1.3.2 does not match requirement >=1.3.3'')),
        \<lparr>executable = ''thermorawfileparser'', docker_image = None,
         version_requirement = ''>=1.3.3'', installed_version = Some ''1.3.2''\<rparr>, Map.empty)"
proof -
  let ?w = "world (tool 0 (''1.3.2'' @ [CHR 0x0A]) [])"
  let ?h = "new_handle ''thermorawfileparser'' None"
  let ?out = "\<lparr>returncode = 0, stdout = ''1.3.2'' @ [CHR 0x0A], stderr = []\<rparr>"
  have r: "run ?w (run_command_cmd ?w ?h [PyStr ''--version''] None) Map.empty
             = (Completed ?out, Map.empty)"
    by (simp add: world_def tool_def)
  have c: "returncode ?out = 0" by simp
  have d: "decode (stdout ?out) = Inr (''1.3.2'' @ [CHR 0x0A])"
    by (simp add: decode_def)
  have s: "strip (''1.3.2'' @ [CHR 0x0A]) = ''1.3.2''"
    by (simp add: strip_def ws1_def ws2_def ws3_def)
  have m: "semver_match ?w ''1.3.2'' ''>=1.3.3'' = Inr False"
    by (simp add: world_def semver_ge_def version_def number_def startswith_def)
  have m': "semver_match ?w (strip (''1.3.2'' @ [CHR 0x0A])) (version_requirement ?h) = Inr False"
    using m s by (simp add: new_handle_def)
  show ?thesis
    using m failed_range_check_keeps_installed_version [OF r c d m'] s
    by (simp add: new_handle_def)
qed

subsection \<open>The argument vectors\<close>

lemma isabs_Cons: "isabs s \<longleftrightarrow> (\<exists>t. s = CHR ''/'' # t)"
  by (cases s) (auto simp add: isabs_def startswith_def)

lemma isabs_normpath:
  assumes "isabs p"
  shows "isabs (normpath p)"
proof -
  from assms obtain t where p: "p = CHR ''/'' # t"
    by (auto simp add: isabs_Cons)
  show ?thesis
    by (simp add: p normpath_def Let_def startswith_def isabs_Cons numeral_2_eq_2)
qed

lemma isabs_path_join:
  assumes "isabs c"
  shows "isabs (path_join c p)"
proof -
  from assms obtain t where c: "c = CHR ''/'' # t"
    by (auto simp add: isabs_Cons)
  show ?thesis
    by (cases p) (auto simp add: c path_join_def startswith_def isabs_Cons)
qed

lemma isabs_abspath:
  assumes "isabs c"
  shows "isabs (abspath c p)"
  using assms by (simp add: abspath_def isabs_normpath isabs_path_join)

text \<open>
  C7. The working directory being absolute, as \<^verbatim>\<open>os.getcwd()\<close> gives it, every operation
  puts the absolute form of its input file right after \<open>-i\<close>: \<^verbatim>\<open>parse\<close> and \<^verbatim>\<open>metadata\<close>
  start their arguments with \<open>-i\<close> and that path, \<^verbatim>\<open>query\<close> and \<^verbatim>\<open>xic\<close> with the name of
  the subcommand, \<open>-i\<close> and that path. The path begins with \<open>/\<close>, so for a relative
  input it is not the path as given.
\<close>

theorem argument_vectors_hold_absolute_input_path:
  assumes "isabs (cwd env)"
  shows "isabs (abspath (cwd env) input_file)
       \<and> (\<not> isabs input_file \<longrightarrow> abspath (cwd env) input_file \<noteq> input_file)
       \<and> (parse_cmd_options env input_file output_format options = Inr args \<longrightarrow>
            take 2 args = [PyStr ''-i'', PyStr (abspath (cwd env) input_file)])
       \<and> take 2 (metadata_cmd_options env input_file output_file)
            = [PyStr ''-i'', PyStr (abspath (cwd env) input_file)]
       \<and> take 3 (query_cmd_options env input_file scans options)
            = [PyStr ''query'', PyStr ''-i'', PyStr (abspath (cwd env) input_file)]
       \<and> take 3 (xic_cmd_options env input_file query_file base64)
            = [PyStr ''xic'', PyStr ''-i'', PyStr (abspath (cwd env) input_file)]"
proof -
  have a: "isabs (abspath (cwd env) input_file)"
    using assms by (rule isabs_abspath)
  then have b: "\<not> isabs input_file \<longrightarrow> abspath (cwd env) input_file \<noteq> input_file"
    by auto
  have c: "parse_cmd_options env input_file output_format options = Inr args \<longrightarrow>
            take 2 args = [PyStr ''-i'', PyStr (abspath (cwd env) input_file)]"
    by (auto simp add: parse_cmd_options_def Let_def split: option.splits if_splits)
  have d: "take 2 (metadata_cmd_options env input_file output_file)
            = [PyStr ''-i'', PyStr (abspath (cwd env) input_file)]"
    by (simp add: metadata_cmd_options_def)
  have e: "take 3 (query_cmd_options env input_file scans options)
            = [PyStr ''query'', PyStr ''-i'', PyStr (abspath (cwd env) input_file)]"
    by (simp add: query_cmd_options_def)
  have f: "take 3 (xic_cmd_options env input_file query_file base64)
            = [PyStr ''xic'', PyStr ''-i'', PyStr (abspath (cwd env) input_file)]"
    by (simp add: xic_cmd_options_def)
  from a b c d e f show ?thesis by blast
qed

theorem argument_vectors_hold_absolute_input_path_witness:
  "isabs (cwd (world no_tool))
   \<and> \<not> isabs ''runs/../a.raw''
   \<and> abspath (cwd (world no_tool)) ''runs/../a.raw'' = ''/data/a.raw''
   \<and> parse_cmd_options (world no_tool) ''runs/../a.raw'' (Some ''mgf'') (Some [PyStr ''-g''])
       = Inr [PyStr ''-i'', PyStr ''/data/a.raw'', PyStr ''-f'', PyStr ''0'', PyStr ''-g'']
   \<and> take 2 (metadata_cmd_options (world no_tool) ''runs/../a.raw'' ''/tmp/tmpq1/meta.json'')
       = [PyStr ''-i'', PyStr ''/data/a.raw'']
   \<and> take 3 (query_cmd_options (world no_tool) ''runs/../a.raw'' (PyStr ''508,680'') None)
       = [PyStr ''query'', PyStr ''-i'', PyStr ''/data/a.raw'']
   \<and> take 3 (xic_cmd_options (world no_tool) ''runs/../a.raw'' ''/tmp/tmpq1/query.json'' True)
       = [PyStr ''xic'', PyStr ''-i'', PyStr ''/data/a.raw'']"
proof -
  let ?w = "world no_tool"
  have h: "isabs (cwd ?w)"
    by (simp add: world_def isabs_def startswith_def)
  have r: "\<not> isabs ''runs/../a.raw''"
    by (simp add: isabs_def startswith_def)
  have p: "abspath (cwd ?w) ''runs/../a.raw'' = ''/data/a.raw''"
    by (simp add: world_def abspath_def normpath_def isabs_def startswith_def endswith_def
        path_join_def norm_step_def)
  have q: "parse_cmd_options ?w ''runs/../a.raw'' (Some ''mgf'') (Some [PyStr ''-g''])
       = Inr [PyStr ''-i'', PyStr ''/data/a.raw'', PyStr ''-f'', PyStr ''0'', PyStr ''-g'']"
    by (simp add: parse_cmd_options_def p formats_def lower_def lower_char_def)
  show ?thesis
    using h r p q
      argument_vectors_hold_absolute_input_path [OF h, of "''runs/../a.raw''"]
    by simp
qed

text \<open>
  C10. \<^verbatim>\<open>parse\<close> looks the lower-cased format name up: a name that is one of \<open>mgf\<close>,
  \<open>mzml\<close>, \<open>indexed_mzml\<close>, \<open>parquet\<close>, \<open>scan_info\<close> in any casing adds \<open>-f\<close> and
  the code \<open>0\<close> to \<open>4\<close> of that name to the arguments. Any other non-empty name makes
  \<^verbatim>\<open>parse\<close> raise \<^verbatim>\<open>KeyError\<close>, unwrapped, whatever the process launcher of the world
  would do, and with the files unchanged: nothing has been launched.
\<close>

theorem parse_format_lookup:
  "((lower name, code) \<in> set [(''mgf'', ''0''), (''mzml'', ''1''), (''indexed_mzml'', ''2''),
                               (''parquet'', ''3''), (''scan_info'', ''4'')] \<longrightarrow>
      parse_cmd_options env input_file (Some name) options
        = Inr ([PyStr ''-i'', PyStr (abspath (cwd env) input_file), PyStr ''-f'', PyStr code]
               @ (case options of None \<Rightarrow> [] | Some extra \<Rightarrow> extra)))
   \<and> (name \<noteq> [] \<and> lower name \<notin> {''mgf'', ''mzml'', ''indexed_mzml'', ''parquet'', ''scan_info''} \<longrightarrow>
        parse env self input_file (Some name) options fs = (Inl (Uncaught KeyError), fs))"
proof (intro conjI impI)
  assume a: "(lower name, code) \<in> set [(''mgf'', ''0''), (''mzml'', ''1''), (''indexed_mzml'', ''2''),
                               (''parquet'', ''3''), (''scan_info'', ''4'')]"
  then have "formats (lower name) = Some code"
    by (auto simp add: formats_def)
  moreover from a have "name \<noteq> []"
    by (auto simp add: lower_def)
  ultimately show "parse_cmd_options env input_file (Some name) options
        = Inr ([PyStr ''-i'', PyStr (abspath (cwd env) input_file), PyStr ''-f'', PyStr code]
               @ (case options of None \<Rightarrow> [] | Some extra \<Rightarrow> extra))"
    by (simp add: parse_cmd_options_def Let_def)
next
  assume b: "name \<noteq> [] \<and> lower name \<notin> {''mgf'', ''mzml'', ''indexed_mzml'', ''parquet'', ''scan_info''}"
  then have "formats (lower name) = None"
    by (simp add: formats_def)
  with b have "parse_cmd_options env input_file (Some name) options = Inl KeyError"
    by (simp add: parse_cmd_options_def Let_def)
  then show "parse env self input_file (Some name) options fs = (Inl (Uncaught KeyError), fs)"
    by (simp add: parse_def)
qed

theorem parse_format_lookup_witness:
  "lower ''Indexed_MZML'' = ''indexed_mzml''
   \<and> parse_cmd_options (world no_tool) ''a.raw'' (Some ''Indexed_MZML'') (Some [PyStr ''-g''])
       = Inr [PyStr ''-i'', PyStr ''/data/a.raw'', PyStr ''-f'', PyStr ''2'', PyStr ''-g'']
   \<and> lower ''mzXML'' = ''mzxml''
   \<and> parse (world no_tool) (new_handle ''thermorawfileparser'' None) ''a.raw'' (Some ''mzXML'')
        None Map.empty
       = (Inl (Uncaught KeyError), Map.empty)"
proof -
  have l: "lower ''Indexed_MZML'' = ''indexed_mzml''" "lower ''mzXML'' = ''mzxml''"
    by (simp_all add: lower_def lower_char_def)
  have p: "abspath (cwd (world no_tool)) ''a.raw'' = ''/data/a.raw''"
    by (simp add: world_def abspath_def normpath_def isabs_def startswith_def endswith_def
        path_join_def norm_step_def)
  have a: "parse_cmd_options (world no_tool) ''a.raw'' (Some ''Indexed_MZML'') (Some [PyStr ''-g''])
       = Inr [PyStr ''-i'', PyStr ''/data/a.raw'', PyStr ''-f'', PyStr ''2'', PyStr ''-g'']"
    using l p parse_format_lookup [where name = "''Indexed_MZML''" and code = "''2''"
        and env = "world no_tool" and input_file = "''a.raw''" and options = "Some [PyStr ''-g'']"]
    by simp
  have b: "parse (world no_tool) (new_handle ''thermorawfileparser'' None) ''a.raw'' (Some ''mzXML'')
        None Map.empty = (Inl (Uncaught KeyError), Map.empty)"
    using l parse_format_lookup [where name = "''mzXML''" and env = "world no_tool"
        and self = "new_handle ''thermorawfileparser'' None" and input_file = "''a.raw''"
        and options = None and fs = Map.empty]
    by simp
  show ?thesis using l a b by simp
qed

subsection \<open>Decoding the result\<close>




lemma metadata_undecodable_file:
  "fst (metadata (world (tool_writing ''/tmp/tmpq1/meta.json'' [CHR 0xFF]))
          (new_handle ''thermorawfileparser'' None) ''a.raw'' Map.empty)
     = Inl (Uncaught UnicodeDecodeError)"
  by (simp add: metadata_def run_command_def world_def tool_writing_def decode_def
      path_join_def startswith_def endswith_def)

end
